theory Spec2Isabelle
  imports Complex_Main
begin

section \<open>Single-point positioning by least squares (proto/least_squares.py, proto/rover_position.py)\<close>

text \<open>
  The two source files hold two versions of the same solver, each in a function called
  \<open>least_squares\<close> with a helper \<open>nav_nearest_in_time\<close>. The definitions taken from
  \<open>proto/least_squares.py\<close> keep the source's names; those taken from
  \<open>proto/rover_position.py\<close> carry the prefix \<open>rover_\<close>.

  Python floats and numpy's float64 arrays are idealised as \<open>real\<close>: rounding, infinities
  and NaN are outside the model. Times (\<open>obs.date\<close>, \<open>t_oe\<close>, and the \<open>datetime\<close> values of
  \<open>rover_position.py\<close>) are seconds on the real line, so that \<open>now + dt.timedelta(seconds=s)\<close>
  is \<open>now + s\<close>.
\<close>

subsection \<open>Exceptions\<close>

text \<open>
  The exceptions the code can raise, as values. \<open>ValueError\<close>: \<open>min\<close> of an empty sequence,
  \<open>list.index\<close> of an absent value, an elementwise sum of arrays of different shape.
  \<open>KeyError\<close>: \<open>navs[r]\<close> for a satellite without an entry. \<open>IndexError\<close>: a read past the
  end of a sequence. \<open>TypeError\<close>: arithmetic on \<open>None\<close>. \<open>LinAlgError\<close>: numpy's inverse
  of a singular matrix.
\<close>

datatype error = ValueError | KeyError | IndexError | TypeError | LinAlgError

subsection \<open>Data\<close>

text \<open>
  A navigation record (class \<open>NavGPS\<close> of the parser, outside the two files) is known to the
  solver through the attributes and methods it uses: \<open>t_oe\<close>, \<open>date\<close>, \<open>utc2gps\<close>,
  \<open>eph2pos\<close> (an ECEF position, three coordinates) and \<open>time_offset\<close>.
\<close>

type_synonym vec3 = "real \<times> real \<times> real"

record nav =
  t_oe :: real
  date :: real
  utc2gps :: "real \<Rightarrow> real"
  eph2pos :: "real \<Rightarrow> vec3"
  time_offset :: "real \<Rightarrow> real"

subsection \<open>The speed of light as the code has it\<close>

text \<open>Both files: \<open>c = 299792428  # speed of light\<close>, the first statement of \<open>least_squares\<close>.\<close>

definition c :: real where
  "c = 299792428"

subsection \<open>nav_nearest_in_time\<close>

text \<open>
  \<open>list.index(v)\<close>: the position of the first element equal to \<open>v\<close>; Python raises
  \<open>ValueError\<close> when there is none (\<open>None\<close> here).
\<close>

fun index :: "'a list \<Rightarrow> 'a \<Rightarrow> nat option" where
  "index [] v = None"
| "index (x # xs) v = (if x = v then Some 0 else map_option Suc (index xs v))"

text \<open>
  \<open>nav_array[diff_array.index(min(diff_array))]\<close>, shared by the two versions, which differ
  in \<open>diff_array\<close> only. \<open>min\<close> of an empty list raises \<open>ValueError\<close>.
\<close>

definition nearest :: "real list \<Rightarrow> 'a list \<Rightarrow> error + 'a" where
  "nearest diff_array nav_array =
     (if diff_array = [] then Inl ValueError
      else case index diff_array (min_list diff_array) of
             None \<Rightarrow> Inl ValueError
           | Some i \<Rightarrow> if i < length nav_array then Inr (nav_array ! i) else Inl IndexError)"

text \<open>proto/least_squares.py: \<open>diff_array = [abs(n.t_oe - t) for n in nav_array]\<close>.\<close>

definition nav_nearest_in_time :: "real \<Rightarrow> nav list \<Rightarrow> error + nav" where
  "nav_nearest_in_time t nav_array =
     (let diff_array = map (\<lambda>n. \<bar>t_oe n - t\<bar>) nav_array
      in nearest diff_array nav_array)"

text \<open>
  proto/rover_position.py:
  \<open>diff_array = [abs((n.date - n.utc2gps(t)).total_seconds()) for n in nav_array]\<close>.
\<close>

definition rover_nav_nearest_in_time :: "real \<Rightarrow> nav list \<Rightarrow> error + nav" where
  "rover_nav_nearest_in_time t nav_array =
     (let diff_array = map (\<lambda>n. \<bar>date n - utc2gps n t\<bar>) nav_array
      in nearest diff_array nav_array)"


subsection \<open>Observations and the collaborators outside the two files\<close>

text \<open>
  An observation (one epoch of the parsed observation file): the attributes \<open>date\<close>,
  \<open>PRN_number\<close> and \<open>obs_data\<close> and the methods \<open>prn\<close> and \<open>ionofree_pseudorange\<close>.
  \<open>obs_data band k\<close> is \<open>obs.obs_data[band][k]\<close>; \<open>None\<close> is Python's \<open>None\<close>, a
  measurement the receiver did not record.
\<close>

record obs =
  date :: real
  PRN_number :: "string list"
  obs_data :: "string \<Rightarrow> nat \<Rightarrow> real option"
  prn :: "string \<Rightarrow> nat"
  ionofree_pseudorange :: "string \<Rightarrow> real"

text \<open>
  The functions imported from \<open>coord.ecef\<close>, \<open>delays\<close> and numpy, taken as parameters.
  The keyword \<open>deg\<close> of \<open>sat_elev\<close> is \<open>None\<close> where the call leaves it out.
  \<open>mat_I\<close> is the attribute \<open>.I\<close> of a numpy matrix: the inverse, a matrix of the same
  shape, or \<open>None\<close> where numpy raises \<open>LinAlgError\<close>.
\<close>

record ext =
  sat_elev :: "real list \<Rightarrow> vec3 \<Rightarrow> bool option \<Rightarrow> real"
  ecef_to_lat_lon_alt :: "real list \<Rightarrow> bool \<Rightarrow> vec3"
  tropmodel :: "vec3 \<Rightarrow> real \<Rightarrow> real list \<Rightarrow> real"
  mat_I :: "real list list \<Rightarrow> real list list option"

text \<open>Truth value of a measurement in \<open>if\<close>: \<open>None\<close> and \<open>0.0\<close> are false.\<close>

definition truthy :: "real option \<Rightarrow> bool" where
  "truthy v = (case v of None \<Rightarrow> False | Some x \<Rightarrow> x \<noteq> 0)"

subsection \<open>The satellite loop of least_squares\<close>

definition elev_mask :: real where
  "elev_mask = 8"

definition rover_elev_mask :: real where
  "rover_elev_mask = 10"

text \<open>
  proto/least_squares.py, \<open>for r in obs.PRN_number\<close>: the list \<open>sats\<close> that the loop builds
  from the satellites still to visit. \<open>init_pos\<close> is a Python list (\<open>''\<close>, the default, has
  length 0 as \<open>[]\<close> has); \<open>navs\<close> is the dictionary of the navigation file.
\<close>

fun sats_loop :: "ext \<Rightarrow> obs \<Rightarrow> (string \<rightharpoonup> nav list) \<Rightarrow> real list \<Rightarrow> string list
    \<Rightarrow> error + (string \<times> nav) list" where
  "sats_loop E ob navs init_pos [] = Inr []"
| "sats_loop E ob navs init_pos (r # rs) =
     (if truthy (obs_data ob ''C1'' (prn ob r)) \<and> truthy (obs_data ob ''P2'' (prn ob r))
         \<and> CHR ''G'' \<in> set r
      then case navs r of
             None \<Rightarrow> Inl KeyError
           | Some nav_array \<Rightarrow>
               (case nav_nearest_in_time (date ob) nav_array of
                  Inl e \<Rightarrow> Inl e
                | Inr nnt \<Rightarrow>
                    if length init_pos \<noteq> 0
                       \<and> sat_elev E init_pos (eph2pos nnt (date ob)) None < elev_mask
                    then sats_loop E ob navs init_pos rs
                    else (case sats_loop E ob navs init_pos rs of
                            Inl e \<Rightarrow> Inl e
                          | Inr sats \<Rightarrow> Inr ((r, nnt) # sats)))
      else sats_loop E ob navs init_pos rs)"

text \<open>
  proto/rover_position.py, \<open>for i,r in enumerate(obs.PRN_number)\<close>: the measurements are read
  at the position \<open>i\<close> of the satellite in \<open>PRN_number\<close>, and the mask is 10.
\<close>

fun rover_sats_loop :: "ext \<Rightarrow> obs \<Rightarrow> (string \<rightharpoonup> nav list) \<Rightarrow> real list \<Rightarrow> (nat \<times> string) list
    \<Rightarrow> error + (string \<times> nav) list" where
  "rover_sats_loop E ob navs init_pos [] = Inr []"
| "rover_sats_loop E ob navs init_pos ((i, r) # rs) =
     (if truthy (obs_data ob ''C1'' i) \<and> truthy (obs_data ob ''P2'' i) \<and> CHR ''G'' \<in> set r
      then case navs r of
             None \<Rightarrow> Inl KeyError
           | Some nav_array \<Rightarrow>
               (case rover_nav_nearest_in_time (date ob) nav_array of
                  Inl e \<Rightarrow> Inl e
                | Inr nnt \<Rightarrow>
                    if length init_pos \<noteq> 0
                       \<and> sat_elev E init_pos (eph2pos nnt (date ob)) None < rover_elev_mask
                    then rover_sats_loop E ob navs init_pos rs
                    else (case rover_sats_loop E ob navs init_pos rs of
                            Inl e \<Rightarrow> Inl e
                          | Inr sats \<Rightarrow> Inr ((r, nnt) # sats)))
      else rover_sats_loop E ob navs init_pos rs)"


subsection \<open>numpy expressions of the iteration\<close>

text \<open>
  A matrix is the list of its rows. \<open>mat_mul\<close> is the product \<open>*\<close> of numpy matrices,
  \<open>transpose\<close> their \<open>.transpose()\<close>, \<open>column\<close> the matrix
  \<open>np.matrix([...]).transpose()\<close> of one column, and \<open>concat\<close> is
  \<open>.flatten().getA()[0]\<close>. The shapes the code multiplies fit by construction, and the
  products of ill-shaped matrices are outside the model. So is the division by a range
  \<open>rho[i] = 0\<close>, where numpy gives \<open>inf\<close> or \<open>nan\<close> and HOL gives 0.
\<close>

definition column :: "real list \<Rightarrow> real list list" where
  "column v = map (\<lambda>x. [x]) v"

definition mat_mul :: "real list list \<Rightarrow> real list list \<Rightarrow> real list list" where
  "mat_mul X Y = map (\<lambda>row. map (\<lambda>col. sum_list (map2 (*) row col)) (transpose Y)) X"

definition list3 :: "vec3 \<Rightarrow> real list" where
  "list3 S = (case S of (x, y, z) \<Rightarrow> [x, y, z])"

text \<open>A list comprehension whose entries may raise: the first exception ends it.\<close>

fun collect :: "(error + 'a) list \<Rightarrow> error + 'a list" where
  "collect [] = Inr []"
| "collect (Inl e # xs) = Inl e"
| "collect (Inr x # xs) = (case collect xs of Inl e \<Rightarrow> Inl e | Inr ys \<Rightarrow> Inr (x # ys))"

text \<open>
  One entry of \<open>rho\<close>:
  \<open>np.sqrt(sum([(x - xyzt[i]) ** 2 for i, x in enumerate(XYZs[j])]))\<close>.
\<close>

definition rho_entry :: "real list \<Rightarrow> vec3 list \<Rightarrow> nat \<Rightarrow> error + real" where
  "rho_entry xyzt XYZs j =
     (if length XYZs \<le> j then Inl IndexError
      else if length xyzt < 3 then Inl IndexError
      else Inr (sqrt (sum_list (map (\<lambda>(i, x). (x - xyzt ! i) ^ 2) (enumerate 0 (list3 (XYZs ! j)))))))"

text \<open>
  One row of \<open>A\<close>: \<open>np.append((xyzt[:3] - XYZs[i]) / rho[i], [c])\<close>. It is built after
  \<open>rho\<close>, so \<open>XYZs[i]\<close> and \<open>rho[i]\<close> exist and \<open>xyzt[:3]\<close> has three entries.
\<close>

definition A_row :: "real list \<Rightarrow> vec3 list \<Rightarrow> real list \<Rightarrow> nat \<Rightarrow> real list" where
  "A_row xyzt XYZs rho i =
     map2 (\<lambda>p x. (p - x) / rho ! i) (take 3 xyzt) (list3 (XYZs ! i)) @ [c]"

text \<open>
  \<open>x_hat_matrix = ((AT * A).I * AT * l)\<close>, \<open>x_hat = x_hat_matrix.flatten().getA()[0]\<close>,
  \<open>x_hat[3] /= c\<close>.
\<close>

definition solve :: "ext \<Rightarrow> real list list \<Rightarrow> real list \<Rightarrow> error + real list" where
  "solve E A l =
     (let AT = transpose A
      in case mat_I E (mat_mul AT A) of
           None \<Rightarrow> Inl LinAlgError
         | Some ATAI \<Rightarrow>
             let x_hat = concat (mat_mul (mat_mul ATAI AT) (column l))
             in if length x_hat < 4 then Inl IndexError
                else Inr (x_hat[3 := x_hat ! 3 / c]))"

text \<open>
  \<open>xyzt += x_hat\<close>: \<open>x_hat\<close> is an array, so the sum is numpy's, entry by entry, also
  when \<open>xyzt\<close> is still the Python list of the first iteration. Both have more than one
  entry here, and numpy raises \<open>ValueError\<close> when their lengths differ.
\<close>

definition add_arrays :: "real list \<Rightarrow> real list \<Rightarrow> error + real list" where
  "add_arrays xyzt x_hat =
     (if length xyzt \<noteq> length x_hat then Inl ValueError else Inr (map2 (+) xyzt x_hat))"

subsection \<open>The entries of the vector l\<close>

text \<open>
  proto/least_squares.py: one entry of the list that becomes \<open>l\<close>. \<open>P\<close> holds the entries of
  \<open>obs_data['C1']\<close>, which may be \<open>None\<close> as far as their type goes.
\<close>

definition l_entry :: "ext \<Rightarrow> real option list \<Rightarrow> real \<Rightarrow> real list \<Rightarrow> real list \<Rightarrow> vec3 list
    \<Rightarrow> vec3 \<Rightarrow> real list \<Rightarrow> nat \<times> string \<times> nav \<Rightarrow> error + real" where
  "l_entry E P now vmf_coeffs xyzt XYZs lla rho = (\<lambda>(i, s).
     if length P \<le> i then Inl IndexError
     else case P ! i of
            None \<Rightarrow> Inl TypeError
          | Some Pi \<Rightarrow>
              if length xyzt < 4 then Inl IndexError
              else Inr (Pi - rho ! i + c * time_offset (snd s) (now + xyzt ! 3)
                        - tropmodel E lla (sat_elev E (take 3 xyzt) (XYZs ! i) (Some False)) vmf_coeffs))"

text \<open>
  proto/rover_position.py: the entry has no tropospheric term (\<open># TODO: tropomodel\<close>), and
  \<open>P\<close> holds the values of \<open>obs.ionofree_pseudorange\<close>.
\<close>

definition rover_l_entry :: "real list \<Rightarrow> real \<Rightarrow> real list \<Rightarrow> real list
    \<Rightarrow> nat \<times> string \<times> nav \<Rightarrow> error + real" where
  "rover_l_entry P now xyzt rho = (\<lambda>(i, s).
     if length P \<le> i then Inl IndexError
     else if length xyzt < 4 then Inl IndexError
     else Inr (P ! i - rho ! i + c * time_offset (snd s) (now + xyzt ! 3)))"

subsection \<open>One iteration of the loop\<close>

text \<open>The variables of \<open>least_squares\<close> that the body of \<open>for itr in range(10)\<close> assigns.\<close>

record vars =
  xyzt :: "real list"
  XYZs :: "vec3 list"
  rho :: "real list"
  l :: "real list"
  A :: "real list list"
  x_hat :: "real list"
  delta :: real
  itr :: nat

text \<open>proto/least_squares.py, the body of the loop up to \<open>delta\<close>.\<close>

definition iteration :: "ext \<Rightarrow> (string \<times> nav) list \<Rightarrow> real option list \<Rightarrow> real \<Rightarrow> real list
    \<Rightarrow> nat \<Rightarrow> real list \<Rightarrow> vec3 list \<Rightarrow> error + vars" where
  "iteration E sats P now vmf_coeffs i xyzt0 XYZs0 =
     (let lla = ecef_to_lat_lon_alt E xyzt0 False
      in case collect (map (rho_entry xyzt0 XYZs0) [0..<length sats]) of
           Inl e \<Rightarrow> Inl e
         | Inr rho0 \<Rightarrow>
        (case collect (map (l_entry E P now vmf_coeffs xyzt0 XYZs0 lla rho0) (enumerate 0 sats)) of
           Inl e \<Rightarrow> Inl e
         | Inr l0 \<Rightarrow>
        (let A0 = map (A_row xyzt0 XYZs0 rho0) [0..<length sats]
         in case solve E A0 l0 of
           Inl e \<Rightarrow> Inl e
         | Inr x_hat0 \<Rightarrow>
        (case add_arrays xyzt0 x_hat0 of
           Inl e \<Rightarrow> Inl e
         | Inr xyzt1 \<Rightarrow>
             Inr \<lparr>xyzt = xyzt1, XYZs = XYZs0, rho = rho0, l = l0, A = A0, x_hat = x_hat0,
                  delta = sqrt (sum_list (map (\<lambda>k. k ^ 2) (take 3 x_hat0))), itr = i\<rparr>))))"

text \<open>proto/rover_position.py, the body of the loop: \<open>A\<close> is built before \<open>l\<close>.\<close>

definition rover_iteration :: "ext \<Rightarrow> (string \<times> nav) list \<Rightarrow> real list \<Rightarrow> real
    \<Rightarrow> nat \<Rightarrow> real list \<Rightarrow> vec3 list \<Rightarrow> error + vars" where
  "rover_iteration E sats P now i xyzt0 XYZs0 =
     (let lla = ecef_to_lat_lon_alt E xyzt0 False
      in case collect (map (rho_entry xyzt0 XYZs0) [0..<length sats]) of
           Inl e \<Rightarrow> Inl e
         | Inr rho0 \<Rightarrow>
        (let A0 = map (A_row xyzt0 XYZs0 rho0) [0..<length sats]
         in case collect (map (rover_l_entry P now xyzt0 rho0) (enumerate 0 sats)) of
           Inl e \<Rightarrow> Inl e
         | Inr l0 \<Rightarrow>
        (case solve E A0 l0 of
           Inl e \<Rightarrow> Inl e
         | Inr x_hat0 \<Rightarrow>
        (case add_arrays xyzt0 x_hat0 of
           Inl e \<Rightarrow> Inl e
         | Inr xyzt1 \<Rightarrow>
             Inr \<lparr>xyzt = xyzt1, XYZs = XYZs0, rho = rho0, l = l0, A = A0, x_hat = x_hat0,
                  delta = sqrt (sum_list (map (\<lambda>k. k ^ 2) (take 3 x_hat0))), itr = i\<rparr>))))"


subsection \<open>The loop for itr in range(10)\<close>

text \<open>
  \<open>range(10)\<close> is \<open>0\<close> followed by \<open>1, ..., 9\<close>: \<open>loop\<close> runs the body for \<open>itr = i\<close>, leaves
  at \<open>break\<close>, and otherwise assigns \<open>XYZs\<close> and goes on with the values of \<open>itr\<close> that are
  left; when none is left the loop ends. The result holds the variables as the loop
  leaves them.
\<close>

fun loop :: "ext \<Rightarrow> (string \<times> nav) list \<Rightarrow> real option list \<Rightarrow> real \<Rightarrow> real list
    \<Rightarrow> nat \<Rightarrow> nat list \<Rightarrow> real list \<Rightarrow> vec3 list \<Rightarrow> error + vars" where
  "loop E sats P now vmf_coeffs i rest xyzt0 XYZs0 =
     (case iteration E sats P now vmf_coeffs i xyzt0 XYZs0 of
        Inl e \<Rightarrow> Inl e
      | Inr v \<Rightarrow>
          if delta v < 1 then Inr v
          else (let v' = v\<lparr>XYZs := map (\<lambda>s. eph2pos (snd s) (now + (x_hat v) ! 3)) sats\<rparr>
                in (case rest of
                      [] \<Rightarrow> Inr v'
                    | j # js \<Rightarrow> loop E sats P now vmf_coeffs j js (xyzt v') (XYZs v'))))"

text \<open>proto/rover_position.py: the same loop with \<open>if delta < 10.: break\<close>.\<close>

fun rover_loop :: "ext \<Rightarrow> (string \<times> nav) list \<Rightarrow> real list \<Rightarrow> real
    \<Rightarrow> nat \<Rightarrow> nat list \<Rightarrow> real list \<Rightarrow> vec3 list \<Rightarrow> error + vars" where
  "rover_loop E sats P now i rest xyzt0 XYZs0 =
     (case rover_iteration E sats P now i xyzt0 XYZs0 of
        Inl e \<Rightarrow> Inl e
      | Inr v \<Rightarrow>
          if delta v < 10 then Inr v
          else (let v' = v\<lparr>XYZs := map (\<lambda>s. eph2pos (snd s) (now + (x_hat v) ! 3)) sats\<rparr>
                in (case rest of
                      [] \<Rightarrow> Inr v'
                    | j # js \<Rightarrow> rover_loop E sats P now j js (xyzt v') (XYZs v'))))"

subsection \<open>least_squares\<close>

text \<open>
  proto/least_squares.py. The result is \<open>None\<close> for \<open>return None\<close> and the list
  \<open>xyzt[:3]\<close> otherwise. After the loop the code computes \<open>ecef_to_lat_lon_alt(xyzt)\<close>, the
  rotation \<open>R\<close> (sines and cosines, never used) and \<open>Q = (AT * A).I\<close>, which can raise.
  The warning that the code prints before \<open>return None\<close> is not modelled.
\<close>

definition least_squares :: "ext \<Rightarrow> obs \<Rightarrow> (string \<rightharpoonup> nav list) \<Rightarrow> real list \<Rightarrow> real list
    \<Rightarrow> error + real list option" where
  "least_squares E ob navs init_pos vmf_coeffs =
     (let now = date ob
      in case sats_loop E ob navs init_pos (PRN_number ob) of
           Inl e \<Rightarrow> Inl e
         | Inr sats \<Rightarrow>
             if length sats > 3 then
               let P = map (\<lambda>s. obs_data ob ''C1'' (prn ob (fst s))) sats;
                   XYZs0 = map (\<lambda>s. eph2pos (snd s) now) sats;
                   xyzt0 = (if length init_pos \<noteq> 0 then init_pos @ [0]
                            else [1 / 10 ^ 10, 1 / 10 ^ 10, 1 / 10 ^ 10, 0])
               in case loop E sats P now vmf_coeffs 0 [1..<10] xyzt0 XYZs0 of
                    Inl e \<Rightarrow> Inl e
                  | Inr v \<Rightarrow>
                      (case mat_I E (mat_mul (transpose (A v)) (A v)) of
                         None \<Rightarrow> Inl LinAlgError
                       | Some Q \<Rightarrow> Inr (Some (take 3 (xyzt v))))
             else Inr None)"

subsection \<open>least_squares of rover_position.py\<close>

text \<open>
  \<open>init_pos\<close> is \<open>''\<close> or a Python list when a caller gives it, and the numpy array \<open>xyzt\<close>
  when \<open>least_squares\<close> calls itself. The two differ in \<open>init_pos + [0.]\<close>: a list gets one
  more entry, an array gets \<open>0.\<close> added to each entry.
\<close>

datatype pyseq = PyList "real list" | NdArray "real list"

fun items :: "pyseq \<Rightarrow> real list" where
  "items (PyList xs) = xs"
| "items (NdArray xs) = xs"

fun plus_zero :: "pyseq \<Rightarrow> real list" where
  "plus_zero (PyList xs) = xs @ [0]"
| "plus_zero (NdArray xs) = map (\<lambda>x. x + 0) xs"


subsection \<open>The estimate that the loop returns has entries\<close>

text \<open>
  The equations of \<open>loop\<close> and \<open>rover_loop\<close> hold for every argument, so the simplifier
  gets them only where a proof names them.
\<close>

declare loop.simps [simp del] rover_loop.simps [simp del]

lemma solve_length: "solve E M v = Inr xh \<Longrightarrow> 4 \<le> length xh"
  by (auto simp: solve_def Let_def split: option.splits if_splits)

lemma add_arrays_length: "add_arrays xs ys = Inr zs \<Longrightarrow> length xs = length ys \<and> length zs = length ys"
  by (auto simp: add_arrays_def split: if_splits)

lemma rover_iteration_length:
  "rover_iteration E sats P now i xs S = Inr v \<Longrightarrow> length (xyzt v) = length (x_hat v) \<and> 4 \<le> length (x_hat v)"
  by (auto simp: rover_iteration_def Let_def split: sum.splits dest!: solve_length add_arrays_length)

lemma iteration_length:
  "iteration E sats P now vmf i xs S = Inr v \<Longrightarrow> length (xyzt v) = length (x_hat v) \<and> 4 \<le> length (x_hat v)"
  by (auto simp: iteration_def Let_def split: sum.splits dest!: solve_length add_arrays_length)

lemma rover_loop_length:
  "rover_loop E sats P now i rest xs S = Inr v \<Longrightarrow> length (xyzt v) = length (x_hat v) \<and> 4 \<le> length (x_hat v)"
proof (induction rest arbitrary: i xs S)
  case Nil
  then show ?case
    by (auto simp: rover_loop.simps[of _ _ _ _ _ "[]"] Let_def split: sum.splits if_splits dest!: rover_iteration_length)
next
  case (Cons j js)
  from Cons.prems show ?case
    by (auto simp: rover_loop.simps[of _ _ _ _ _ "j # js"] Let_def split: sum.splits if_splits
        dest!: rover_iteration_length Cons.IH)
qed

text \<open>
  proto/rover_position.py. Without \<open>init_pos\<close> the function calls itself with the estimate
  of the first pass; that estimate has entries, so the second call returns \<open>xyzt\<close>. Both
  branches that print a warning return \<open>None\<close>.
\<close>

function rover_least_squares :: "ext \<Rightarrow> obs \<Rightarrow> (string \<rightharpoonup> nav list) \<Rightarrow> pyseq
    \<Rightarrow> error + real list option" where
  "rover_least_squares E ob navs init_pos =
     (let now = date ob
      in case rover_sats_loop E ob navs (items init_pos) (enumerate 0 (PRN_number ob)) of
           Inl e \<Rightarrow> Inl e
         | Inr sats \<Rightarrow>
             if length sats > 3 then
               let P = map (\<lambda>s. ionofree_pseudorange ob (fst s)) sats;
                   XYZs0 = map (\<lambda>s. eph2pos (snd s) now) sats;
                   xyzt0 = (if length (items init_pos) \<noteq> 0 then plus_zero init_pos
                            else [1 / 10 ^ 10, 1 / 10 ^ 10, 1 / 10 ^ 10, 0])
               in case rover_loop E sats P now 0 [1..<10] xyzt0 XYZs0 of
                    Inl e \<Rightarrow> Inl e
                  | Inr v \<Rightarrow>
                      if length (items init_pos) \<noteq> 0 then Inr (Some (xyzt v))
                      else rover_least_squares E ob navs (NdArray (xyzt v))
             else if length sats \<le> 3 \<and> length (items init_pos) \<noteq> 0 then Inr None
             else Inr None)"
  by pat_completeness auto
termination
proof (relation "measure (\<lambda>(E, ob, navs, init_pos). if length (items init_pos) = 0 then 1 else 0)")
  show "wf (measure (\<lambda>(E, ob, navs, init_pos). if length (items init_pos) = 0 then 1 else (0::nat)))"
    by simp
next
  fix E ob navs init_pos x b xa xb xc ba
  assume "rover_loop E b xa x 0 [1..<10] xc xb = Inr ba" and "\<not> length (items init_pos) \<noteq> 0"
  then show "((E, ob, navs, NdArray (xyzt ba)), (E, ob, navs, init_pos))
      \<in> measure (\<lambda>(E, ob, navs, init_pos). if length (items init_pos) = 0 then 1 else 0)"
    by (auto dest!: rover_loop_length)
qed


declare rover_least_squares.simps [simp del]

section \<open>Example data\<close>

text \<open>A navigation record with reference time \<open>t\<close>, for the examples below.\<close>

definition demo_nav :: "real \<Rightarrow> nav" where
  "demo_nav t = \<lparr>t_oe = t, date = t, utc2gps = (\<lambda>u. u), eph2pos = (\<lambda>u. (0, 0, 0)), time_offset = (\<lambda>u. 0)\<rparr>"

text \<open>A satellite that stays at \<open>S\<close> and has no clock offset.\<close>

definition static_nav :: "vec3 \<Rightarrow> nav" where
  "static_nav S = \<lparr>t_oe = 0, date = 0, utc2gps = (\<lambda>u. u), eph2pos = (\<lambda>u. S), time_offset = (\<lambda>u. 0)\<rparr>"

text \<open>
  Four satellites on the axes, 20000 km from a receiver at the origin, give the matrix
  \<open>AT * A = ATA0\<close>; \<open>ATAI0\<close> is its inverse.
\<close>

definition ATA0 :: "real list list" where
  "ATA0 = [[2, 0, 0, 0], [0, 1, 0, - c], [0, 0, 1, - c], [0, - c, - c, 4 * c * c]]"

definition ATAI0 :: "real list list" where
  "ATAI0 = [[1 / 2, 0, 0, 0], [0, 3 / 2, 1 / 2, 1 / (2 * c)], [0, 1 / 2, 3 / 2, 1 / (2 * c)],
            [0, 1 / (2 * c), 1 / (2 * c), 1 / (2 * c * c)]]"

text \<open>
  Collaborators for the examples: the satellite at \<open>(0, -20000000, 0)\<close> is seen 5 degrees
  above the horizon and every other one 45 degrees, there is no tropospheric delay, and
  \<open>.I\<close> inverts \<open>ATA0\<close>.
\<close>

definition demo_E :: ext where
  "demo_E = \<lparr>sat_elev = (\<lambda>observer S deg. if S = (0, - 20000000, 0) then 5 else 45),
             ecef_to_lat_lon_alt = (\<lambda>xs deg. (0, 0, 0)),
             tropmodel = (\<lambda>lla el vmf. 0),
             mat_I = (\<lambda>M. if M = ATA0 then Some ATAI0 else None)\<rparr>"

text \<open>
  An epoch at time 0 with the satellites \<open>names\<close>. Every measurement is 20000000 m, but
  slot 5 (\<open>G06\<close>) has no \<open>P2\<close>.
\<close>

definition demo_obs :: "string list \<Rightarrow> obs" where
  "demo_obs names =
     \<lparr>date = 0, PRN_number = names,
      obs_data = (\<lambda>band k. if band = ''P2'' \<and> k = 5 then None else Some 20000000),
      prn = (\<lambda>r. case index [''G01'', ''G02'', ''G03'', ''G04'', ''G05'', ''G06''] r of
                    None \<Rightarrow> 0 | Some k \<Rightarrow> k),
      ionofree_pseudorange = (\<lambda>r. 20000000)\<rparr>"

text \<open>The navigation file: one record for each of six satellites.\<close>

definition demo_navs :: "string \<rightharpoonup> nav list" where
  "demo_navs = map_of
     [(''G01'', [static_nav (20000000, 0, 0)]), (''G02'', [static_nav (0, 20000000, 0)]),
      (''G03'', [static_nav (0, 0, 20000000)]), (''G04'', [static_nav (- 20000000, 0, 0)]),
      (''G05'', [static_nav (0, - 20000000, 0)]), (''G06'', [static_nav (0, 0, - 20000000)])]"

text \<open>The working set of the four satellites on the axes \<open>G01\<close> to \<open>G04\<close>.\<close>

definition demo_sats :: "(string \<times> nav) list" where
  "demo_sats = [(''G01'', static_nav (20000000, 0, 0)), (''G02'', static_nav (0, 20000000, 0)),
                (''G03'', static_nav (0, 0, 20000000)), (''G04'', static_nav (- 20000000, 0, 0))]"

lemmas demo_defs = demo_E_def demo_obs_def demo_navs_def demo_sats_def static_nav_def
  nav_nearest_in_time_def rover_nav_nearest_in_time_def nearest_def truthy_def
  elev_mask_def rover_elev_mask_def

text \<open>
  A satellite that is at \<open>S\<close> up to the epoch 0 and 2 m further along the first axis after
  it, with the clock offset \<open>a\<close> up to the epoch and \<open>- a\<close> after it.
\<close>

definition moving_nav :: "vec3 \<Rightarrow> real \<Rightarrow> nav" where
  "moving_nav S a =
     \<lparr>t_oe = 0, date = 0, utc2gps = (\<lambda>u. u),
      eph2pos = (\<lambda>u. if 0 < u then (fst S + 2, snd S) else S),
      time_offset = (\<lambda>u. if 0 < u then - a else a)\<rparr>"

text \<open>
  Four such satellites on the axes. Their clock offsets are chosen so that the solver, from
  the origin, steps 2 m along the first axis and 1 s in the clock, and from there steps
  back: the correction never falls below 2 m.
\<close>

definition moving_sats :: "(string \<times> nav) list" where
  "moving_sats =
     [(''G01'', moving_nav (20000000, 0, 0) (c - 2 / c)), (''G02'', moving_nav (0, 20000000, 0) c),
      (''G03'', moving_nav (0, 0, 20000000) c), (''G04'', moving_nav (- 20000000, 0, 0) (c + 2 / c))]"

text \<open>
  The pseudoranges of the four satellites, their positions at the epoch and after it, and
  the matrix \<open>A\<close> of a receiver at the origin.
\<close>

definition demo_P :: "real list" where
  "demo_P = [20000000, 20000000, 20000000, 20000000]"

definition demo_XYZs :: "vec3 list" where
  "demo_XYZs = [(20000000, 0, 0), (0, 20000000, 0), (0, 0, 20000000), (- 20000000, 0, 0)]"

definition moved_XYZs :: "vec3 list" where
  "moved_XYZs = [(20000002, 0, 0), (2, 20000000, 0), (2, 0, 20000000), (- 19999998, 0, 0)]"

definition demo_A :: "real list list" where
  "demo_A = [[-1, 0, 0, c], [0, -1, 0, c], [0, 0, -1, c], [1, 0, 0, c]]"

text \<open>The names of the four satellites on the axes.\<close>

definition demo_names :: "string list" where
  "demo_names = [''G01'', ''G02'', ''G03'', ''G04'']"














section \<open>Properties\<close>

subsection \<open>The record nearest in time\<close>

lemma index_Some_iff:
  "index xs v = Some i \<longleftrightarrow> i < length xs \<and> xs ! i = v \<and> (\<forall>j<i. xs ! j \<noteq> v)"
proof (induction xs arbitrary: i)
  case Nil
  show ?case by simp
next
  case (Cons x xs)
  show ?case
  proof (cases "x = v")
    case True
    then show ?thesis by (cases i) auto
  next
    case False
    show ?thesis
    proof (cases i)
      case 0
      with False show ?thesis by simp
    next
      case (Suc k)
      have "(\<forall>j<Suc k. (x # xs) ! j \<noteq> v) \<longleftrightarrow> (\<forall>j<k. xs ! j \<noteq> v)"
        using False by (auto simp: less_Suc_eq_0_disj)
      with False Suc Cons.IH[of k] show ?thesis by auto
    qed
  qed
qed

lemma index_min_list:
  fixes d :: "real list"
  assumes "d \<noteq> []"
  shows "\<exists>i<length d. index d (min_list d) = Some i \<and> (\<forall>j<length d. d ! i \<le> d ! j)
           \<and> (\<forall>j<i. d ! i < d ! j)"
proof -
  have m: "min_list d = Min (set d)" using assms by (rule min_list_Min)
  have "Min (set d) \<in> set d" using assms by (intro Min_in) auto
  then obtain k where k: "k < length d" "d ! k = Min (set d)" by (auto simp: in_set_conv_nth)
  define i where "i = (LEAST k. k < length d \<and> d ! k = Min (set d))"
  have i: "i < length d \<and> d ! i = Min (set d)"
    unfolding i_def by (rule LeastI[of _ k]) (use k in simp)
  have least: "\<And>j. j < i \<Longrightarrow> d ! j \<noteq> Min (set d)"
  proof
    fix j assume "j < i" "d ! j = Min (set d)"
    moreover from this i have "j < length d" by simp
    ultimately have "i \<le> j" unfolding i_def by (intro Least_le) simp
    with \<open>j < i\<close> show False by simp
  qed
  have le: "\<And>j. j < length d \<Longrightarrow> d ! i \<le> d ! j" using i by simp
  have "index d (min_list d) = Some i" using i least by (simp add: index_Some_iff m)
  moreover have "\<forall>j<i. d ! i < d ! j"
  proof (intro allI impI)
    fix j assume "j < i"
    then have "d ! j \<noteq> d ! i" "d ! i \<le> d ! j" using least[of j] le[of j] i by auto
    then show "d ! i < d ! j" by simp
  qed
  ultimately show ?thesis using i le by blast
qed

lemma nearest_first_minimum:
  fixes f :: "'a \<Rightarrow> real"
  assumes "xs \<noteq> []"
  shows "\<exists>i<length xs. nearest (map f xs) xs = Inr (xs ! i)
           \<and> (\<forall>j<length xs. f (xs ! i) \<le> f (xs ! j)) \<and> (\<forall>j<i. f (xs ! i) < f (xs ! j))"
proof -
  from assms have ne: "map f xs \<noteq> []" by simp
  from index_min_list[OF ne] obtain i where i: "i < length xs"
    "index (map f xs) (min_list (map f xs)) = Some i"
    "\<forall>j<length xs. map f xs ! i \<le> map f xs ! j" "\<forall>j<i. map f xs ! i < map f xs ! j"
    by auto
  have "nearest (map f xs) xs = Inr (xs ! i)" using i(1,2) ne by (simp add: nearest_def)
  moreover have "\<forall>j<length xs. f (xs ! i) \<le> f (xs ! j)" using i(1,3) by simp
  moreover have "\<forall>j<i. f (xs ! i) < f (xs ! j)" using i(1,4) by simp
  ultimately show ?thesis using i(1) by blast
qed

text \<open>
  C5. For a non-empty list of records, \<open>nav_nearest_in_time\<close> returns the record at the
  first position where the absolute difference between the reference time and the epoch is
  least: no record is nearer, and every earlier record is strictly farther. The version of
  \<open>rover_position.py\<close> does the same with \<open>n.date\<close> and the epoch converted by
  \<open>n.utc2gps\<close>.
\<close>

theorem nav_nearest_in_time_closest:
  assumes "nav_array \<noteq> []"
  shows "(\<exists>i<length nav_array. nav_nearest_in_time t nav_array = Inr (nav_array ! i)
            \<and> (\<forall>j<length nav_array. \<bar>t_oe (nav_array ! i) - t\<bar> \<le> \<bar>t_oe (nav_array ! j) - t\<bar>)
            \<and> (\<forall>j<i. \<bar>t_oe (nav_array ! i) - t\<bar> < \<bar>t_oe (nav_array ! j) - t\<bar>))
       \<and> (\<exists>i<length nav_array. rover_nav_nearest_in_time t nav_array = Inr (nav_array ! i)
            \<and> (\<forall>j<length nav_array. \<bar>nav.date (nav_array ! i) - utc2gps (nav_array ! i) t\<bar>
                    \<le> \<bar>nav.date (nav_array ! j) - utc2gps (nav_array ! j) t\<bar>)
            \<and> (\<forall>j<i. \<bar>nav.date (nav_array ! i) - utc2gps (nav_array ! i) t\<bar>
                    < \<bar>nav.date (nav_array ! j) - utc2gps (nav_array ! j) t\<bar>))"
  using nearest_first_minimum[OF assms, of "\<lambda>n. \<bar>t_oe n - t\<bar>"]
    nearest_first_minimum[OF assms, of "\<lambda>n. \<bar>nav.date n - utc2gps n t\<bar>"]
  by (simp add: nav_nearest_in_time_def rover_nav_nearest_in_time_def)

text \<open>
  Records two hours before and one hour after the epoch 100000: the later one is selected.
\<close>

theorem nav_nearest_in_time_closest_witness:
  "[demo_nav (100000 - 7200), demo_nav (100000 + 3600)] \<noteq> []
   \<and> nav_nearest_in_time 100000 [demo_nav (100000 - 7200), demo_nav (100000 + 3600)]
       = Inr (demo_nav (100000 + 3600))
   \<and> rover_nav_nearest_in_time 100000 [demo_nav (100000 - 7200), demo_nav (100000 + 3600)]
       = Inr (demo_nav (100000 + 3600))"
proof -
  let ?xs = "[demo_nav (100000 - 7200), demo_nav (100000 + 3600)]"
  have ne: "?xs \<noteq> []" by simp
  from nav_nearest_in_time_closest[OF ne, of 100000]
  obtain i k where i: "i < length ?xs" "nav_nearest_in_time 100000 ?xs = Inr (?xs ! i)"
      "\<forall>j<length ?xs. \<bar>t_oe (?xs ! i) - 100000\<bar> \<le> \<bar>t_oe (?xs ! j) - 100000\<bar>"
    and k: "k < length ?xs" "rover_nav_nearest_in_time 100000 ?xs = Inr (?xs ! k)"
      "\<forall>j<length ?xs. \<bar>nav.date (?xs ! k) - utc2gps (?xs ! k) 100000\<bar>
          \<le> \<bar>nav.date (?xs ! j) - utc2gps (?xs ! j) 100000\<bar>"
    by blast
  have "i = 1"
  proof (rule ccontr)
    assume "i \<noteq> 1"
    with i(1) have "i = 0" by simp
    with i(3)[rule_format, of 1] show False by (simp add: demo_nav_def)
  qed
  moreover have "k = 1"
  proof (rule ccontr)
    assume "k \<noteq> 1"
    with k(1) have "k = 0" by simp
    with k(3)[rule_format, of 1] show False by (simp add: demo_nav_def)
  qed
  ultimately show ?thesis using i(2) k(2) by simp
qed

subsection \<open>The satellite loop\<close>

lemma nav_nearest_in_time_Inl:
  "nav_nearest_in_time t arr = Inl e \<Longrightarrow> arr = [] \<and> e = ValueError"
  using nearest_first_minimum[of arr "\<lambda>n. \<bar>t_oe n - t\<bar>"]
  by (cases "arr = []") (auto simp: nav_nearest_in_time_def nearest_def)

lemma rover_nav_nearest_in_time_Inl:
  "rover_nav_nearest_in_time t arr = Inl e \<Longrightarrow> arr = [] \<and> e = ValueError"
  using nearest_first_minimum[of arr "\<lambda>n. \<bar>nav.date n - utc2gps n t\<bar>"]
  by (cases "arr = []") (auto simp: rover_nav_nearest_in_time_def nearest_def)

lemma sats_loop_set:
  "sats_loop E ob navs init_pos rs = Inr sats \<Longrightarrow>
     (r, n) \<in> set sats \<longleftrightarrow>
       r \<in> set rs \<and> truthy (obs_data ob ''C1'' (prn ob r)) \<and> truthy (obs_data ob ''P2'' (prn ob r))
       \<and> CHR ''G'' \<in> set r
       \<and> (\<exists>arr. navs r = Some arr \<and> nav_nearest_in_time (date ob) arr = Inr n)
       \<and> \<not> (length init_pos \<noteq> 0 \<and> sat_elev E init_pos (eph2pos n (date ob)) None < elev_mask)"
proof (induction rs arbitrary: sats)
  case Nil
  then show ?case by auto
next
  case (Cons a rs)
  show ?case
  proof (cases "truthy (obs_data ob ''C1'' (prn ob a)) \<and> truthy (obs_data ob ''P2'' (prn ob a))
         \<and> CHR ''G'' \<in> set a")
    case False
    with Cons.prems have "sats_loop E ob navs init_pos rs = Inr sats" by auto
    from Cons.IH[OF this] False show ?thesis by auto
  next
    case True
    with Cons.prems obtain arr nnt where arr: "navs a = Some arr"
        "nav_nearest_in_time (date ob) arr = Inr nnt"
      by (auto split: option.splits sum.splits)
    show ?thesis
    proof (cases "length init_pos \<noteq> 0 \<and> sat_elev E init_pos (eph2pos nnt (date ob)) None < elev_mask")
      case low: True
      with True arr Cons.prems have "sats_loop E ob navs init_pos rs = Inr sats" by simp
      from Cons.IH[OF this] low arr show ?thesis by auto
    next
      case high: False
      with True arr Cons.prems obtain sats' where s: "sats_loop E ob navs init_pos rs = Inr sats'"
          "sats = (a, nnt) # sats'"
        by (auto split: sum.splits)
      from Cons.IH[OF s(1)] s(2) high arr True show ?thesis by auto
    qed
  qed
qed

lemma rover_sats_loop_set:
  "rover_sats_loop E ob navs init_pos irs = Inr sats \<Longrightarrow>
     (r, n) \<in> set sats \<longleftrightarrow>
       (\<exists>i. (i, r) \<in> set irs \<and> truthy (obs_data ob ''C1'' i) \<and> truthy (obs_data ob ''P2'' i))
       \<and> CHR ''G'' \<in> set r
       \<and> (\<exists>arr. navs r = Some arr \<and> rover_nav_nearest_in_time (date ob) arr = Inr n)
       \<and> \<not> (length init_pos \<noteq> 0 \<and> sat_elev E init_pos (eph2pos n (date ob)) None < rover_elev_mask)"
proof (induction irs arbitrary: sats)
  case Nil
  then show ?case by auto
next
  case (Cons ia irs)
  obtain i a where ia: "ia = (i, a)" by (cases ia)
  show ?case
  proof (cases "truthy (obs_data ob ''C1'' i) \<and> truthy (obs_data ob ''P2'' i) \<and> CHR ''G'' \<in> set a")
    case False
    with Cons.prems ia have "rover_sats_loop E ob navs init_pos irs = Inr sats" by auto
    from Cons.IH[OF this] False ia show ?thesis by auto
  next
    case True
    with Cons.prems ia obtain arr nnt where arr: "navs a = Some arr"
        "rover_nav_nearest_in_time (date ob) arr = Inr nnt"
      by (auto split: option.splits sum.splits)
    show ?thesis
    proof (cases "length init_pos \<noteq> 0 \<and> sat_elev E init_pos (eph2pos nnt (date ob)) None < rover_elev_mask")
      case low: True
      with True arr Cons.prems ia have "rover_sats_loop E ob navs init_pos irs = Inr sats" by simp
      from Cons.IH[OF this] low arr ia show ?thesis by auto
    next
      case high: False
      with True arr Cons.prems ia obtain sats' where s: "rover_sats_loop E ob navs init_pos irs = Inr sats'"
          "sats = (a, nnt) # sats'"
        by (auto split: sum.splits)
      from Cons.IH[OF s(1)] s(2) high arr True ia show ?thesis by auto
    qed
  qed
qed

lemma sats_loop_empty_records:
  "r \<in> set rs \<Longrightarrow> truthy (obs_data ob ''C1'' (prn ob r)) \<Longrightarrow> truthy (obs_data ob ''P2'' (prn ob r))
   \<Longrightarrow> CHR ''G'' \<in> set r \<Longrightarrow> navs r = Some []
   \<Longrightarrow> sats_loop E ob navs init_pos rs = Inl ValueError \<or> sats_loop E ob navs init_pos rs = Inl KeyError"
proof (induction rs)
  case Nil
  then show ?case by simp
next
  case (Cons a rs)
  show ?case
  proof (cases "a = r")
    case True
    with Cons.prems show ?thesis
      by (simp add: nav_nearest_in_time_def nearest_def)
  next
    case False
    with Cons.prems have "r \<in> set rs" by simp
    from Cons.IH[OF this Cons.prems(2-5)] show ?thesis
      by (auto split: option.splits sum.splits dest: nav_nearest_in_time_Inl)
  qed
qed

lemma rover_sats_loop_empty_records:
  "(i, r) \<in> set irs \<Longrightarrow> truthy (obs_data ob ''C1'' i) \<Longrightarrow> truthy (obs_data ob ''P2'' i)
   \<Longrightarrow> CHR ''G'' \<in> set r \<Longrightarrow> navs r = Some []
   \<Longrightarrow> rover_sats_loop E ob navs init_pos irs = Inl ValueError
       \<or> rover_sats_loop E ob navs init_pos irs = Inl KeyError"
proof (induction irs)
  case Nil
  then show ?case by simp
next
  case (Cons a irs)
  show ?case
  proof (cases "a = (i, r)")
    case True
    with Cons.prems show ?thesis
      by (simp add: rover_nav_nearest_in_time_def nearest_def)
  next
    case False
    with Cons.prems have "(i, r) \<in> set irs" by simp
    from Cons.IH[OF this Cons.prems(2-5)] show ?thesis
      by (cases a) (auto split: option.splits sum.splits dest: rover_nav_nearest_in_time_Inl)
  qed
qed

lemma sats_loop_ext:
  "sat_elev E' = sat_elev E \<Longrightarrow> sats_loop E' ob navs init_pos rs = sats_loop E ob navs init_pos rs"
  by (induction rs) (auto split: option.splits sum.splits)

lemma rover_sats_loop_ext:
  "sat_elev E' = sat_elev E \<Longrightarrow> rover_sats_loop E' ob navs init_pos irs = rover_sats_loop E ob navs init_pos irs"
  by (induction irs) (auto split: option.splits sum.splits)

text \<open>The satellite loop on the example data.\<close>

lemma demo_sats_loop_three:
  "sats_loop demo_E (demo_obs [''G01'', ''G02'', ''G03'']) demo_navs [] [''G01'', ''G02'', ''G03'']
    = Inr (take 3 demo_sats)"
  by (simp add: demo_defs)

lemma demo_rover_sats_loop_three:
  "rover_sats_loop demo_E (demo_obs [''G01'', ''G02'', ''G03'']) demo_navs [] (enumerate 0 [''G01'', ''G02'', ''G03''])
    = Inr (take 3 demo_sats)"
  by (simp add: demo_defs enumerate_eq_zip upt_rec)



lemma demo_sats_loop_six:
  "sats_loop demo_E (demo_obs [''G01'', ''G02'', ''G03'', ''G04'', ''G05'', ''G06'']) demo_navs [0, 0, 0]
      [''G01'', ''G02'', ''G03'', ''G04'', ''G05'', ''G06'']
    = Inr demo_sats"
  by (simp add: demo_defs)

subsection \<open>Empty lists of records\<close>

lemma least_squares_sats_error:
  "sats_loop E ob navs init_pos (PRN_number ob) = Inl e \<Longrightarrow> least_squares E ob navs init_pos vmf = Inl e"
  by (simp add: least_squares_def)

lemma rover_least_squares_sats_error:
  "rover_sats_loop E ob navs (items init_pos) (enumerate 0 (PRN_number ob)) = Inl e
   \<Longrightarrow> rover_least_squares E ob navs init_pos = Inl e"
  by (simp add: rover_least_squares.simps[of E ob navs init_pos])

text \<open>
  C9, as the code has it. For every epoch, the selector fails on an empty list of records:
  \<open>min\<close> raises Python's \<open>ValueError\<close>, in both versions. \<open>least_squares\<close> does not catch it: when a satellite with
  both measurements and a \<open>G\<close> in its name has an empty list of records, the call ends in
  an exception that goes to the caller (\<open>ValueError\<close>, or \<open>KeyError\<close> when an earlier
  satellite has no entry at all), and no estimate is returned.
\<close>

theorem empty_records_fail:
  "nav_nearest_in_time t [] = Inl ValueError
   \<and> rover_nav_nearest_in_time t [] = Inl ValueError
   \<and> (r \<in> set (PRN_number ob) \<and> truthy (obs_data ob ''C1'' (prn ob r))
        \<and> truthy (obs_data ob ''P2'' (prn ob r)) \<and> CHR ''G'' \<in> set r \<and> navs r = Some []
      \<longrightarrow> least_squares E ob navs init_pos vmf = Inl ValueError
          \<or> least_squares E ob navs init_pos vmf = Inl KeyError)
   \<and> ((i, r) \<in> set (enumerate 0 (PRN_number ob)) \<and> truthy (obs_data ob ''C1'' i)
        \<and> truthy (obs_data ob ''P2'' i) \<and> CHR ''G'' \<in> set r \<and> navs r = Some []
      \<longrightarrow> rover_least_squares E ob navs ip = Inl ValueError
          \<or> rover_least_squares E ob navs ip = Inl KeyError)"
proof (intro conjI impI)
  show "nav_nearest_in_time t [] = Inl ValueError"
    by (simp add: nav_nearest_in_time_def nearest_def)
  show "rover_nav_nearest_in_time t [] = Inl ValueError"
    by (simp add: rover_nav_nearest_in_time_def nearest_def)
next
  assume "r \<in> set (PRN_number ob) \<and> truthy (obs_data ob ''C1'' (prn ob r))
        \<and> truthy (obs_data ob ''P2'' (prn ob r)) \<and> CHR ''G'' \<in> set r \<and> navs r = Some []"
  then have "sats_loop E ob navs init_pos (PRN_number ob) = Inl ValueError
      \<or> sats_loop E ob navs init_pos (PRN_number ob) = Inl KeyError"
    by (intro sats_loop_empty_records) auto
  then show "least_squares E ob navs init_pos vmf = Inl ValueError
          \<or> least_squares E ob navs init_pos vmf = Inl KeyError"
    by (auto dest: least_squares_sats_error)
next
  assume "(i, r) \<in> set (enumerate 0 (PRN_number ob)) \<and> truthy (obs_data ob ''C1'' i)
        \<and> truthy (obs_data ob ''P2'' i) \<and> CHR ''G'' \<in> set r \<and> navs r = Some []"
  then have "rover_sats_loop E ob navs (items ip) (enumerate 0 (PRN_number ob)) = Inl ValueError
      \<or> rover_sats_loop E ob navs (items ip) (enumerate 0 (PRN_number ob)) = Inl KeyError"
    by (intro rover_sats_loop_empty_records) auto
  then show "rover_least_squares E ob navs ip = Inl ValueError
          \<or> rover_least_squares E ob navs ip = Inl KeyError"
    by (auto dest: rover_least_squares_sats_error)
qed

text \<open>The records of \<open>G02\<close> are empty: both versions end in \<open>ValueError\<close>.\<close>

theorem empty_records_fail_witness:
  "least_squares demo_E (demo_obs [''G01'', ''G02'', ''G03'', ''G04'']) (demo_navs(''G02'' \<mapsto> [])) [] []
     = Inl ValueError
   \<and> rover_least_squares demo_E (demo_obs [''G01'', ''G02'', ''G03'', ''G04'']) (demo_navs(''G02'' \<mapsto> []))
       (PyList []) = Inl ValueError"
proof -
  let ?ob = "demo_obs [''G01'', ''G02'', ''G03'', ''G04'']"
  let ?navs = "demo_navs(''G02'' \<mapsto> [])"
  have h1: "''G02'' \<in> set (PRN_number ?ob) \<and> truthy (obs_data ?ob ''C1'' (prn ?ob ''G02''))
        \<and> truthy (obs_data ?ob ''P2'' (prn ?ob ''G02'')) \<and> CHR ''G'' \<in> set ''G02''
        \<and> ?navs ''G02'' = Some []"
    by (simp add: demo_obs_def truthy_def)
  have h2: "(1, ''G02'') \<in> set (enumerate 0 (PRN_number ?ob)) \<and> truthy (obs_data ?ob ''C1'' 1)
        \<and> truthy (obs_data ?ob ''P2'' 1) \<and> CHR ''G'' \<in> set ''G02'' \<and> ?navs ''G02'' = Some []"
    by (simp add: demo_obs_def truthy_def enumerate_eq_zip upt_rec)
  have n1: "least_squares demo_E ?ob ?navs [] [] \<noteq> Inl KeyError"
    by (simp add: least_squares_def demo_defs)
  have n2: "rover_least_squares demo_E ?ob ?navs (PyList []) \<noteq> Inl KeyError"
    by (simp add: rover_least_squares.simps[of _ _ _ "PyList []"] demo_defs enumerate_eq_zip upt_rec)
  from empty_records_fail[of 0 "''G02''" ?ob ?navs demo_E "[]" "[]" 1 "PyList []"] h1 h2 n1 n2
  show ?thesis by blast
qed

subsection \<open>Fewer than four satellites\<close>

lemma least_squares_few:
  "sats_loop E ob navs init_pos (PRN_number ob) = Inr sats \<Longrightarrow> length sats < 4
   \<Longrightarrow> least_squares E ob navs init_pos vmf = Inr None"
  by (simp add: least_squares_def)

lemma rover_least_squares_few:
  "rover_sats_loop E ob navs (items init_pos) (enumerate 0 (PRN_number ob)) = Inr sats \<Longrightarrow> length sats < 4
   \<Longrightarrow> rover_least_squares E ob navs init_pos = Inr None"
  by (simp add: rover_least_squares.simps[of E ob navs init_pos])

text \<open>
  C4. When the satellite loop leaves fewer than four satellites, \<open>least_squares\<close> returns
  \<open>None\<close>, in both versions. The loop of iterations is not entered: the result is \<open>None\<close>
  whatever the coordinate transform, the tropospheric model and the matrix inverse do.
\<close>

theorem too_few_satellites:
  "(sats_loop E ob navs init_pos (PRN_number ob) = Inr sats \<and> length sats < 4
      \<longrightarrow> least_squares E ob navs init_pos vmf = Inr None
          \<and> (\<forall>f g h. least_squares (E\<lparr>ecef_to_lat_lon_alt := f, tropmodel := g, mat_I := h\<rparr>)
                        ob navs init_pos vmf = Inr None))
   \<and> (rover_sats_loop E ob navs (items ip) (enumerate 0 (PRN_number ob)) = Inr sats \<and> length sats < 4
      \<longrightarrow> rover_least_squares E ob navs ip = Inr None
          \<and> (\<forall>f g h. rover_least_squares (E\<lparr>ecef_to_lat_lon_alt := f, tropmodel := g, mat_I := h\<rparr>)
                        ob navs ip = Inr None))"
proof (intro conjI impI allI)
  assume a: "sats_loop E ob navs init_pos (PRN_number ob) = Inr sats \<and> length sats < 4"
  then show "least_squares E ob navs init_pos vmf = Inr None"
    by (auto intro: least_squares_few)
  fix f g h
  have "sats_loop (E\<lparr>ecef_to_lat_lon_alt := f, tropmodel := g, mat_I := h\<rparr>) ob navs init_pos (PRN_number ob)
      = sats_loop E ob navs init_pos (PRN_number ob)"
    by (rule sats_loop_ext) simp
  with a show "least_squares (E\<lparr>ecef_to_lat_lon_alt := f, tropmodel := g, mat_I := h\<rparr>) ob navs init_pos vmf
      = Inr None"
    by (auto intro: least_squares_few)
next
  assume a: "rover_sats_loop E ob navs (items ip) (enumerate 0 (PRN_number ob)) = Inr sats \<and> length sats < 4"
  then show "rover_least_squares E ob navs ip = Inr None"
    by (auto intro: rover_least_squares_few)
  fix f g h
  have "rover_sats_loop (E\<lparr>ecef_to_lat_lon_alt := f, tropmodel := g, mat_I := h\<rparr>) ob navs (items ip)
          (enumerate 0 (PRN_number ob))
      = rover_sats_loop E ob navs (items ip) (enumerate 0 (PRN_number ob))"
    by (rule rover_sats_loop_ext) simp
  with a show "rover_least_squares (E\<lparr>ecef_to_lat_lon_alt := f, tropmodel := g, mat_I := h\<rparr>) ob navs ip
      = Inr None"
    by (auto intro: rover_least_squares_few)
qed

text \<open>Three satellites qualify: no estimate.\<close>

theorem too_few_satellites_witness:
  "sats_loop demo_E (demo_obs [''G01'', ''G02'', ''G03'']) demo_navs [] [''G01'', ''G02'', ''G03'']
     = Inr (take 3 demo_sats)
   \<and> length (take 3 demo_sats) = 3
   \<and> least_squares demo_E (demo_obs [''G01'', ''G02'', ''G03'']) demo_navs [] [] = Inr None
   \<and> rover_least_squares demo_E (demo_obs [''G01'', ''G02'', ''G03'']) demo_navs (PyList []) = Inr None"
proof -
  let ?ob = "demo_obs [''G01'', ''G02'', ''G03'']"
  have p: "PRN_number ?ob = [''G01'', ''G02'', ''G03'']" by (simp add: demo_obs_def)
  have h1: "sats_loop demo_E ?ob demo_navs [] (PRN_number ?ob) = Inr (take 3 demo_sats)
      \<and> length (take 3 demo_sats) < 4"
    unfolding p using demo_sats_loop_three by (simp add: demo_sats_def)
  have h2: "rover_sats_loop demo_E ?ob demo_navs (items (PyList [])) (enumerate 0 (PRN_number ?ob))
       = Inr (take 3 demo_sats) \<and> length (take 3 demo_sats) < 4"
    unfolding p using demo_rover_sats_loop_three by (simp add: demo_sats_def)
  from too_few_satellites[of demo_E ?ob demo_navs "[]" "take 3 demo_sats" "[]" "PyList []"] h1 h2
  show ?thesis using demo_sats_loop_three by (simp add: demo_sats_def)
qed

subsection \<open>The elevation mask\<close>



subsection \<open>The measurements a satellite needs\<close>

lemma sats_loop_obs_data:
  "(\<forall>k. truthy (d' ''P2'' k) = truthy (obs_data ob ''P2'' k)) \<Longrightarrow> (\<forall>k. d' ''C1'' k = obs_data ob ''C1'' k)
   \<Longrightarrow> sats_loop E (ob\<lparr>obs_data := d'\<rparr>) navs init_pos rs = sats_loop E ob navs init_pos rs"
  by (induction rs) (auto split: option.splits sum.splits)

lemma least_squares_obs_data:
  assumes "\<forall>k. truthy (d' ''P2'' k) = truthy (obs_data ob ''P2'' k)" "\<forall>k. d' ''C1'' k = obs_data ob ''C1'' k"
  shows "least_squares E (ob\<lparr>obs_data := d'\<rparr>) navs init_pos vmf = least_squares E ob navs init_pos vmf"
proof -
  have P: "(\<lambda>s. obs_data (ob\<lparr>obs_data := d'\<rparr>) ''C1'' (prn (ob\<lparr>obs_data := d'\<rparr>) (fst s)))
      = (\<lambda>s :: string \<times> nav. obs_data ob ''C1'' (prn ob (fst s)))"
    using assms(2) by simp
  have S: "sats_loop E (ob\<lparr>obs_data := d'\<rparr>) navs init_pos (PRN_number (ob\<lparr>obs_data := d'\<rparr>))
      = sats_loop E ob navs init_pos (PRN_number ob)"
    using sats_loop_obs_data[OF assms] by simp
  have D: "date (ob\<lparr>obs_data := d'\<rparr>) = date ob" by simp
  show ?thesis unfolding least_squares_def P S D ..
qed

text \<open>
  C10. A satellite enters \<open>sats\<close> only if its \<open>C1\<close> and its \<open>P2\<close> measurement are both
  present and not zero and its name contains \<open>G\<close>, in both versions; so a satellite
  without \<open>P2\<close> is left out whatever its \<open>C1\<close> is. Yet in \<open>least_squares.py\<close> the values
  of \<open>P2\<close> never reach the solution, which reads \<open>C1\<close> alone: changing the \<open>P2\<close> values
  without changing which of them are present leaves the result as it is.
\<close>

theorem both_measurements_required:
  "(sats_loop E ob navs init_pos (PRN_number ob) = Inr sats \<and> (r, n) \<in> set sats
      \<longrightarrow> truthy (obs_data ob ''C1'' (prn ob r)) \<and> truthy (obs_data ob ''P2'' (prn ob r))
          \<and> CHR ''G'' \<in> set r)
   \<and> (rover_sats_loop E ob navs init_pos (enumerate 0 (PRN_number ob)) = Inr sats \<and> (r, n) \<in> set sats
      \<longrightarrow> (\<exists>i. (i, r) \<in> set (enumerate 0 (PRN_number ob)) \<and> truthy (obs_data ob ''C1'' i)
                \<and> truthy (obs_data ob ''P2'' i))
          \<and> CHR ''G'' \<in> set r)
   \<and> (sats_loop E ob navs init_pos (PRN_number ob) = Inr sats
        \<and> \<not> truthy (obs_data ob ''P2'' (prn ob r))
      \<longrightarrow> r \<notin> fst ` set sats)
   \<and> ((\<forall>k. truthy (d' ''P2'' k) = truthy (obs_data ob ''P2'' k))
        \<and> (\<forall>k. d' ''C1'' k = obs_data ob ''C1'' k)
      \<longrightarrow> least_squares E (ob\<lparr>obs_data := d'\<rparr>) navs init_pos vmf
          = least_squares E ob navs init_pos vmf)"
proof (intro conjI impI)
  assume a: "sats_loop E ob navs init_pos (PRN_number ob) = Inr sats \<and> (r, n) \<in> set sats"
  then have s: "sats_loop E ob navs init_pos (PRN_number ob) = Inr sats" by simp
  from a sats_loop_set[OF s, of r n]
  show "truthy (obs_data ob ''C1'' (prn ob r))" "truthy (obs_data ob ''P2'' (prn ob r))"
    "CHR ''G'' \<in> set r"
    by auto
next
  assume a: "rover_sats_loop E ob navs init_pos (enumerate 0 (PRN_number ob)) = Inr sats
      \<and> (r, n) \<in> set sats"
  then have s: "rover_sats_loop E ob navs init_pos (enumerate 0 (PRN_number ob)) = Inr sats" by simp
  from a rover_sats_loop_set[OF s, of r n]
  show "\<exists>i. (i, r) \<in> set (enumerate 0 (PRN_number ob)) \<and> truthy (obs_data ob ''C1'' i)
                \<and> truthy (obs_data ob ''P2'' i)" "CHR ''G'' \<in> set r"
    by auto
next
  assume a: "sats_loop E ob navs init_pos (PRN_number ob) = Inr sats
        \<and> \<not> truthy (obs_data ob ''P2'' (prn ob r))"
  then have s: "sats_loop E ob navs init_pos (PRN_number ob) = Inr sats" by simp
  show "r \<notin> fst ` set sats"
  proof
    assume "r \<in> fst ` set sats"
    then obtain m where "(r, m) \<in> set sats" by auto
    with sats_loop_set[OF s, of r m] a show False by simp
  qed
next
  assume "(\<forall>k. truthy (d' ''P2'' k) = truthy (obs_data ob ''P2'' k))
        \<and> (\<forall>k. d' ''C1'' k = obs_data ob ''C1'' k)"
  then show "least_squares E (ob\<lparr>obs_data := d'\<rparr>) navs init_pos vmf
          = least_squares E ob navs init_pos vmf"
    by (intro least_squares_obs_data) auto
qed

text \<open>\<open>G06\<close> has a valid \<open>C1\<close> and no \<open>P2\<close>: it is not in the working set.\<close>

theorem both_measurements_required_witness:
  "obs_data (demo_obs [''G01'', ''G02'', ''G03'', ''G04'', ''G05'', ''G06'']) ''C1''
       (prn (demo_obs [''G01'', ''G02'', ''G03'', ''G04'', ''G05'', ''G06'']) ''G06'') = Some 20000000
   \<and> obs_data (demo_obs [''G01'', ''G02'', ''G03'', ''G04'', ''G05'', ''G06'']) ''P2''
       (prn (demo_obs [''G01'', ''G02'', ''G03'', ''G04'', ''G05'', ''G06'']) ''G06'') = None
   \<and> sats_loop demo_E (demo_obs [''G01'', ''G02'', ''G03'', ''G04'', ''G05'', ''G06'']) demo_navs [0, 0, 0]
        [''G01'', ''G02'', ''G03'', ''G04'', ''G05'', ''G06''] = Inr demo_sats
   \<and> ''G06'' \<notin> fst ` set demo_sats"
proof -
  let ?ob = "demo_obs [''G01'', ''G02'', ''G03'', ''G04'', ''G05'', ''G06'']"
  have p: "PRN_number ?ob = [''G01'', ''G02'', ''G03'', ''G04'', ''G05'', ''G06'']"
    by (simp add: demo_obs_def)
  have c1: "obs_data ?ob ''C1'' (prn ?ob ''G06'') = Some 20000000"
    and p2: "obs_data ?ob ''P2'' (prn ?ob ''G06'') = None"
    by (simp_all add: demo_obs_def)
  have s: "sats_loop demo_E ?ob demo_navs [0, 0, 0] (PRN_number ?ob) = Inr demo_sats"
    unfolding p by (rule demo_sats_loop_six)
  have "\<not> truthy (obs_data ?ob ''P2'' (prn ?ob ''G06''))" unfolding p2 by (simp add: truthy_def)
  with both_measurements_required[of demo_E ?ob demo_navs "[0, 0, 0]" demo_sats "''G06''"] s
  have "''G06'' \<notin> fst ` set demo_sats" by blast
  with c1 p2 s show ?thesis unfolding p by blast
qed

subsection \<open>The constant c\<close>

text \<open>
  C2. The constant that the code uses as the speed of light, and puts in the last column of
  every row of \<open>A\<close>, is 299792428, which is not 299792458.
\<close>

theorem speed_of_light_in_code:
  "c = 299792428 \<and> c \<noteq> 299792458 \<and> last (A_row xs S r i) = 299792428"
  by (simp add: c_def A_row_def)

subsection \<open>The iteration and the loop\<close>

lemma collect_Inr:
  "collect xs = Inr ys \<Longrightarrow> length ys = length xs \<and> (\<forall>k<length xs. xs ! k = Inr (ys ! k))"
proof (induction xs arbitrary: ys rule: collect.induct)
  case 1
  then show ?case by simp
next
  case (2 e xs)
  then show ?case by simp
next
  case (3 x xs)
  from "3.prems" obtain zs where zs: "collect xs = Inr zs" "ys = x # zs"
    by (auto split: sum.splits)
  from "3.IH"[OF zs(1)] zs(2) show ?case by (auto simp: nth_Cons split: nat.splits)
qed

lemma solve_Inr:
  "solve E M b = Inr xh \<Longrightarrow>
     \<exists>ATAI. mat_I E (mat_mul (transpose M) M) = Some ATAI
       \<and> xh = (concat (mat_mul (mat_mul ATAI (transpose M)) (column b)))
                [3 := concat (mat_mul (mat_mul ATAI (transpose M)) (column b)) ! 3 / c]"
  by (auto simp: solve_def Let_def split: option.splits if_splits)


lemma iteration_Inr:
  assumes "iteration E sats P now vmf i xs S = Inr v"
  shows "itr v = i" "XYZs v = S" "solve E (A v) (l v) = Inr (x_hat v)"
    "add_arrays xs (x_hat v) = Inr (xyzt v)"
    "delta v = sqrt (sum_list (map (\<lambda>k. k ^ 2) (take 3 (x_hat v))))"
    "collect (map (rho_entry xs S) [0..<length sats]) = Inr (rho v)"
    "collect (map (l_entry E P now vmf xs S (ecef_to_lat_lon_alt E xs False) (rho v)) (enumerate 0 sats))
       = Inr (l v)"
    "A v = map (A_row xs S (rho v)) [0..<length sats]"
  using assms by (auto simp: iteration_def Let_def split: sum.splits)

lemma rover_iteration_Inr:
  assumes "rover_iteration E sats P now i xs S = Inr v"
  shows "itr v = i" "XYZs v = S" "solve E (A v) (l v) = Inr (x_hat v)"
    "add_arrays xs (x_hat v) = Inr (xyzt v)"
    "delta v = sqrt (sum_list (map (\<lambda>k. k ^ 2) (take 3 (x_hat v))))"
    "collect (map (rho_entry xs S) [0..<length sats]) = Inr (rho v)"
    "collect (map (rover_l_entry P now xs (rho v)) (enumerate 0 sats)) = Inr (l v)"
    "A v = map (A_row xs S (rho v)) [0..<length sats]"
  using assms by (auto simp: rover_iteration_def Let_def split: sum.splits)

lemma loop_break:
  "iteration E sats P now vmf i xs S = Inr w \<Longrightarrow> delta w < 1
   \<Longrightarrow> loop E sats P now vmf i rest xs S = Inr w"
  by (simp add: loop.simps[of _ _ _ _ _ i rest])

lemma loop_continue:
  "iteration E sats P now vmf i xs S = Inr w \<Longrightarrow> \<not> delta w < 1
   \<Longrightarrow> loop E sats P now vmf i (j # js) xs S
       = loop E sats P now vmf j js (xyzt w) (map (\<lambda>s. eph2pos (snd s) (now + x_hat w ! 3)) sats)"
  by (simp add: loop.simps[of _ _ _ _ _ i "j # js"])

lemma loop_last:
  "iteration E sats P now vmf i xs S = Inr w \<Longrightarrow> \<not> delta w < 1
   \<Longrightarrow> loop E sats P now vmf i [] xs S
       = Inr (w\<lparr>XYZs := map (\<lambda>s. eph2pos (snd s) (now + x_hat w ! 3)) sats\<rparr>)"
  by (simp add: loop.simps[of _ _ _ _ _ i "[]"])

lemma loop_error:
  "iteration E sats P now vmf i xs S = Inl e \<Longrightarrow> loop E sats P now vmf i rest xs S = Inl e"
  by (simp add: loop.simps[of _ _ _ _ _ i rest])

lemma rover_loop_break:
  "rover_iteration E sats P now i xs S = Inr w \<Longrightarrow> delta w < 10
   \<Longrightarrow> rover_loop E sats P now i rest xs S = Inr w"
  by (simp add: rover_loop.simps[of _ _ _ _ i rest])

lemma rover_loop_continue:
  "rover_iteration E sats P now i xs S = Inr w \<Longrightarrow> \<not> delta w < 10
   \<Longrightarrow> rover_loop E sats P now i (j # js) xs S
       = rover_loop E sats P now j js (xyzt w) (map (\<lambda>s. eph2pos (snd s) (now + x_hat w ! 3)) sats)"
  by (simp add: rover_loop.simps[of _ _ _ _ i "j # js"])

lemma rover_loop_last:
  "rover_iteration E sats P now i xs S = Inr w \<Longrightarrow> \<not> delta w < 10
   \<Longrightarrow> rover_loop E sats P now i [] xs S
       = Inr (w\<lparr>XYZs := map (\<lambda>s. eph2pos (snd s) (now + x_hat w ! 3)) sats\<rparr>)"
  by (simp add: rover_loop.simps[of _ _ _ _ i "[]"])

lemma rover_loop_error:
  "rover_iteration E sats P now i xs S = Inl e \<Longrightarrow> rover_loop E sats P now i rest xs S = Inl e"
  by (simp add: rover_loop.simps[of _ _ _ _ i rest])

lemma loop_exit:
  "loop E sats P now vmf i rest xs S = Inr v \<Longrightarrow>
     itr v \<in> set (i # rest) \<and> (itr v \<noteq> last (i # rest) \<longrightarrow> delta v < 1)
     \<and> delta v = sqrt (sum_list (map (\<lambda>k. k ^ 2) (take 3 (x_hat v))))
     \<and> (\<exists>Q. mat_I E (mat_mul (transpose (A v)) (A v)) = Some Q)"
proof (induction rest arbitrary: i xs S)
  case Nil
  show ?case
  proof (cases "iteration E sats P now vmf i xs S")
    case (Inl e)
    with Nil loop_error[OF Inl] show ?thesis by simp
  next
    case (Inr w)
    show ?thesis
    proof (cases "delta w < 1")
      case True
      with Nil loop_break[OF Inr True] iteration_Inr[OF Inr] solve_Inr show ?thesis by fastforce
    next
      case False
      with Nil loop_last[OF Inr False] iteration_Inr[OF Inr] solve_Inr show ?thesis by fastforce
    qed
  qed
next
  case (Cons j js)
  show ?case
  proof (cases "iteration E sats P now vmf i xs S")
    case (Inl e)
    with Cons.prems loop_error[OF Inl] show ?thesis by simp
  next
    case (Inr w)
    show ?thesis
    proof (cases "delta w < 1")
      case True
      with Cons.prems loop_break[OF Inr True] iteration_Inr[OF Inr] solve_Inr show ?thesis by fastforce
    next
      case False
      from Cons.prems loop_continue[OF Inr False]
      have "loop E sats P now vmf j js (xyzt w) (map (\<lambda>s. eph2pos (snd s) (now + x_hat w ! 3)) sats) = Inr v"
        by simp
      from Cons.IH[OF this] show ?thesis by auto
    qed
  qed
qed

lemma rover_loop_exit:
  "rover_loop E sats P now i rest xs S = Inr v \<Longrightarrow>
     itr v \<in> set (i # rest) \<and> (itr v \<noteq> last (i # rest) \<longrightarrow> delta v < 10)
     \<and> delta v = sqrt (sum_list (map (\<lambda>k. k ^ 2) (take 3 (x_hat v))))"
proof (induction rest arbitrary: i xs S)
  case Nil
  show ?case
  proof (cases "rover_iteration E sats P now i xs S")
    case (Inl e)
    with Nil rover_loop_error[OF Inl] show ?thesis by simp
  next
    case (Inr w)
    show ?thesis
    proof (cases "delta w < 10")
      case True
      with Nil rover_loop_break[OF Inr True] rover_iteration_Inr[OF Inr] show ?thesis by fastforce
    next
      case False
      with Nil rover_loop_last[OF Inr False] rover_iteration_Inr[OF Inr] show ?thesis by fastforce
    qed
  qed
next
  case (Cons j js)
  show ?case
  proof (cases "rover_iteration E sats P now i xs S")
    case (Inl e)
    with Cons.prems rover_loop_error[OF Inl] show ?thesis by simp
  next
    case (Inr w)
    show ?thesis
    proof (cases "delta w < 10")
      case True
      with Cons.prems rover_loop_break[OF Inr True] rover_iteration_Inr[OF Inr] show ?thesis by fastforce
    next
      case False
      from Cons.prems rover_loop_continue[OF Inr False]
      have "rover_loop E sats P now j js (xyzt w) (map (\<lambda>s. eph2pos (snd s) (now + x_hat w ! 3)) sats) = Inr v"
        by simp
      from Cons.IH[OF this] show ?thesis by auto
    qed
  qed
qed

lemma range10: "[1..<10] = [1, 2, 3, 4, 5, 6, 7, 8, 9 :: nat]"
  by (simp add: upt_rec)

subsection \<open>The iterations on the example data\<close>

lemma sqrt_d: "sqrt 400000000000000 = 20000000"
  by (rule real_sqrt_unique) simp_all

lemma sqrt_4: "sqrt 4 = 2"
  by (rule real_sqrt_unique) simp_all

lemmas iteration_defs = iteration_def rover_iteration_def rho_entry_def l_entry_def rover_l_entry_def
  A_row_def solve_def add_arrays_def mat_mul_def column_def list3_def enumerate_eq_zip upt_rec
  ATA0_def ATAI0_def c_def demo_P_def demo_XYZs_def moved_XYZs_def demo_A_def sqrt_d sqrt_4

lemma demo_iteration:
  "iteration demo_E demo_sats (map Some demo_P) 0 [] i [0, 0, 0, 0] demo_XYZs
   = Inr \<lparr>xyzt = [0, 0, 0, 0], XYZs = demo_XYZs, rho = demo_P, l = [0, 0, 0, 0], A = demo_A,
          x_hat = [0, 0, 0, 0], delta = 0, itr = i\<rparr>"
  by (simp add: demo_sats_def static_nav_def demo_E_def iteration_defs)

lemma demo_rover_iteration:
  "rover_iteration demo_E demo_sats demo_P 0 i [0, 0, 0, 0] demo_XYZs
   = Inr \<lparr>xyzt = [0, 0, 0, 0], XYZs = demo_XYZs, rho = demo_P, l = [0, 0, 0, 0], A = demo_A,
          x_hat = [0, 0, 0, 0], delta = 0, itr = i\<rparr>"
  by (simp add: demo_sats_def static_nav_def demo_E_def iteration_defs)

lemma moving_iteration_out:
  "iteration demo_E moving_sats (map Some demo_P) 0 [] i [0, 0, 0, 0] demo_XYZs
   = Inr \<lparr>xyzt = [2, 0, 0, 1], XYZs = demo_XYZs, rho = demo_P,
          l = [c * c - 2, c * c, c * c, c * c + 2], A = demo_A,
          x_hat = [2, 0, 0, 1], delta = 2, itr = i\<rparr>"
  by (simp add: moving_sats_def moving_nav_def demo_E_def iteration_defs)

lemma moving_iteration_back:
  "iteration demo_E moving_sats (map Some demo_P) 0 [] i [2, 0, 0, 1] moved_XYZs
   = Inr \<lparr>xyzt = [0, 0, 0, 0], XYZs = moved_XYZs, rho = demo_P,
          l = [2 - c * c, - (c * c), - (c * c), - (c * c) - 2], A = demo_A,
          x_hat = [- 2, 0, 0, - 1], delta = 2, itr = i\<rparr>"
  by (simp add: moving_sats_def moving_nav_def demo_E_def iteration_defs)

lemma moving_XYZs_start: "map (\<lambda>s. eph2pos (snd s) 0) moving_sats = demo_XYZs"
  by (simp add: moving_sats_def moving_nav_def demo_XYZs_def)

lemma moving_XYZs_out: "map (\<lambda>s. eph2pos (snd s) (0 + [2, 0, 0, 1] ! 3)) moving_sats = moved_XYZs"
  by (simp add: moving_sats_def moving_nav_def moved_XYZs_def)

lemma moving_XYZs_back: "map (\<lambda>s. eph2pos (snd s) (0 + [- 2, 0, 0, - 1] ! 3)) moving_sats = demo_XYZs"
  by (simp add: moving_sats_def moving_nav_def demo_XYZs_def)

lemma demo_XYZs_start: "map (\<lambda>s. eph2pos (snd s) 0) demo_sats = demo_XYZs"
  by (simp add: demo_sats_def static_nav_def demo_XYZs_def)

lemma moving_loop_out:
  "loop demo_E moving_sats (map Some demo_P) 0 [] i (j # js) [0, 0, 0, 0] demo_XYZs
   = loop demo_E moving_sats (map Some demo_P) 0 [] j js [2, 0, 0, 1] moved_XYZs"
  using loop_continue[OF moving_iteration_out, of i j js] moving_XYZs_out by simp

lemma moving_loop_back:
  "loop demo_E moving_sats (map Some demo_P) 0 [] i (j # js) [2, 0, 0, 1] moved_XYZs
   = loop demo_E moving_sats (map Some demo_P) 0 [] j js [0, 0, 0, 0] demo_XYZs"
  using loop_continue[OF moving_iteration_back, of i j js] moving_XYZs_back by simp

lemma moving_loop_last:
  "loop demo_E moving_sats (map Some demo_P) 0 [] i [] [2, 0, 0, 1] moved_XYZs
   = Inr \<lparr>xyzt = [0, 0, 0, 0], XYZs = demo_XYZs, rho = demo_P,
          l = [2 - c * c, - (c * c), - (c * c), - (c * c) - 2], A = demo_A,
          x_hat = [- 2, 0, 0, - 1], delta = 2, itr = i\<rparr>"
  using loop_last[OF moving_iteration_back, of i] moving_XYZs_back by simp

lemma moving_loop:
  "loop demo_E moving_sats (map Some demo_P) 0 [] 0 [1..<10] [0, 0, 0, 0] demo_XYZs
   = Inr \<lparr>xyzt = [0, 0, 0, 0], XYZs = demo_XYZs, rho = demo_P,
          l = [2 - c * c, - (c * c), - (c * c), - (c * c) - 2], A = demo_A,
          x_hat = [- 2, 0, 0, - 1], delta = 2, itr = 9\<rparr>"
  unfolding range10 by (simp only: moving_loop_out moving_loop_back moving_loop_last)

lemma demo_loop:
  "loop demo_E demo_sats (map Some demo_P) 0 [] 0 [1..<10] [0, 0, 0, 0] demo_XYZs
   = Inr \<lparr>xyzt = [0, 0, 0, 0], XYZs = demo_XYZs, rho = demo_P, l = [0, 0, 0, 0], A = demo_A,
          x_hat = [0, 0, 0, 0], delta = 0, itr = 0\<rparr>"
  using loop_break[OF demo_iteration, of 0 "[1..<10]"] by simp

lemma demo_rover_loop:
  "rover_loop demo_E demo_sats demo_P 0 0 [1..<10] [0, 0, 0, 0] demo_XYZs
   = Inr \<lparr>xyzt = [0, 0, 0, 0], XYZs = demo_XYZs, rho = demo_P, l = [0, 0, 0, 0], A = demo_A,
          x_hat = [0, 0, 0, 0], delta = 0, itr = 0\<rparr>"
  using rover_loop_break[OF demo_rover_iteration, of 0 "[1..<10]"] by simp




lemma demo_P_C1:
  "map (\<lambda>s. obs_data (demo_obs demo_names) ''C1'' (prn (demo_obs demo_names) (fst s))) demo_sats
     = map Some demo_P"
  "map (\<lambda>s. obs_data (demo_obs demo_names) ''C1'' (prn (demo_obs demo_names) (fst s))) moving_sats
     = map Some demo_P"
  "map (\<lambda>s. ionofree_pseudorange (demo_obs demo_names) (fst s)) demo_sats = demo_P"
  by (simp_all add: demo_obs_def demo_sats_def moving_sats_def demo_P_def)

lemma demo_obs_fields: "date (demo_obs names) = 0" "PRN_number (demo_obs names) = names"
  by (simp_all add: demo_obs_def)


lemma demo_four: "3 < length demo_sats" "3 < length moving_sats"
  by (simp_all add: demo_sats_def moving_sats_def)


subsection \<open>The residual\<close>

text \<open>
  In \<open>least_squares.py\<close> every entry of \<open>l\<close> is the observed \<open>C1\<close> range minus the
  geometric range, plus \<open>c\<close> times the clock offset of the satellite at \<open>now + xyzt[3]\<close>,
  minus the tropospheric delay at the elevation of the satellite and the geodetic position
  of the estimate. In \<open>rover_position.py\<close> the last term is missing.
\<close>

lemma iteration_residual:
  assumes "iteration E sats P now vmf i xs S = Inr v" "k < length sats"
  shows "\<exists>Pk. P ! k = Some Pk
       \<and> l v ! k = Pk - rho v ! k + c * time_offset (snd (sats ! k)) (now + xs ! 3)
                    - tropmodel E (ecef_to_lat_lon_alt E xs False)
                        (sat_elev E (take 3 xs) (S ! k) (Some False)) vmf
       \<and> rho v ! k = sqrt (sum_list (map (\<lambda>(i, x). (x - xs ! i) ^ 2) (enumerate 0 (list3 (S ! k)))))"
proof -
  from collect_Inr[OF iteration_Inr(6)[OF assms(1)]] assms(2)
  have r: "rho_entry xs S k = Inr (rho v ! k)" by simp
  from collect_Inr[OF iteration_Inr(7)[OF assms(1)]] assms(2)
  have e: "l_entry E P now vmf xs S (ecef_to_lat_lon_alt E xs False) (rho v) (k, sats ! k) = Inr (l v ! k)"
    by (simp add: nth_enumerate_eq)
  from r have "rho v ! k = sqrt (sum_list (map (\<lambda>(i, x). (x - xs ! i) ^ 2) (enumerate 0 (list3 (S ! k)))))"
    by (auto simp: rho_entry_def split: if_splits)
  with e show ?thesis
    by (auto simp: l_entry_def split: if_splits option.splits)
qed

lemma rover_iteration_residual:
  assumes "rover_iteration E sats P now i xs S = Inr v" "k < length sats"
  shows "l v ! k = P ! k - rho v ! k + c * time_offset (snd (sats ! k)) (now + xs ! 3)"
proof -
  from collect_Inr[OF rover_iteration_Inr(7)[OF assms(1)]] assms(2)
  have "rover_l_entry P now xs (rho v) (k, sats ! k) = Inr (l v ! k)"
    by (simp add: nth_enumerate_eq)
  then show ?thesis
    by (auto simp: rover_l_entry_def split: if_splits)
qed

text \<open>
  C3. With a tropospheric delay of 3 m for every satellite, ranges that equal the geometric
  ranges and no clock offsets, every residual of \<open>least_squares.py\<close> is \<open>- 3\<close>, and every
  residual of \<open>rover_position.py\<close> is 0: that version does not subtract the delay.
\<close>

theorem rover_residual_without_troposphere:
  "map_sum (\<lambda>e. e) l
      (iteration (demo_E\<lparr>tropmodel := \<lambda>lla el vmf. 3\<rparr>) demo_sats (map Some demo_P) 0 [] 0
         [0, 0, 0, 0] demo_XYZs)
     = Inr [- 3, - 3, - 3, - 3]
   \<and> map_sum (\<lambda>e. e) l
      (rover_iteration (demo_E\<lparr>tropmodel := \<lambda>lla el vmf. 3\<rparr>) demo_sats demo_P 0 0
         [0, 0, 0, 0] demo_XYZs)
     = Inr [0, 0, 0, 0]"
  by (simp add: demo_sats_def static_nav_def demo_E_def iteration_defs)

subsection \<open>The update of the estimate\<close>



subsection \<open>The budget of ten iterations\<close>

text \<open>
  C7. \<open>itr\<close> is the index of the last iteration that ran. When the loop over \<open>range(10)\<close>
  ends without an exception, \<open>itr\<close> is below 10, so at most ten iterations ran; if it ends
  before the tenth iteration, \<open>delta\<close> is below the threshold; and \<open>delta\<close> is the Euclidean
  norm of the first three entries of \<open>x_hat\<close>. In each iteration the loop ends at once when
  \<open>delta\<close> is below the threshold, and goes on with the next value of \<open>itr\<close>, from the
  updated estimate, when it is not. The threshold is 1 in \<open>least_squares.py\<close> and 10 in
  \<open>rover_position.py\<close>.
\<close>

theorem iteration_budget:
  "(loop E sats P now vmf 0 [1..<10] xs S = Inr v
      \<longrightarrow> itr v < 10 \<and> (itr v < 9 \<longrightarrow> delta v < 1)
          \<and> delta v = sqrt (sum_list (map (\<lambda>k. k ^ 2) (take 3 (x_hat v)))))
   \<and> (iteration E sats P now vmf i xs S = Inr w \<and> delta w < 1
      \<longrightarrow> loop E sats P now vmf i rest xs S = Inr w)
   \<and> (iteration E sats P now vmf i xs S = Inr w \<and> \<not> delta w < 1
      \<longrightarrow> loop E sats P now vmf i (j # js) xs S
          = loop E sats P now vmf j js (xyzt w) (map (\<lambda>s. eph2pos (snd s) (now + x_hat w ! 3)) sats))
   \<and> (rover_loop E sats Pr now 0 [1..<10] xs S = Inr v
      \<longrightarrow> itr v < 10 \<and> (itr v < 9 \<longrightarrow> delta v < 10)
          \<and> delta v = sqrt (sum_list (map (\<lambda>k. k ^ 2) (take 3 (x_hat v)))))
   \<and> (rover_iteration E sats Pr now i xs S = Inr w \<and> delta w < 10
      \<longrightarrow> rover_loop E sats Pr now i rest xs S = Inr w)
   \<and> (rover_iteration E sats Pr now i xs S = Inr w \<and> \<not> delta w < 10
      \<longrightarrow> rover_loop E sats Pr now i (j # js) xs S
          = rover_loop E sats Pr now j js (xyzt w) (map (\<lambda>s. eph2pos (snd s) (now + x_hat w ! 3)) sats))"
proof (intro conjI impI)
  assume a: "loop E sats P now vmf 0 [1..<10] xs S = Inr v"
  from loop_exit[OF a]
  have m: "itr v \<in> set (0 # [1..<10])" and e: "itr v \<noteq> last (0 # [1..<10]) \<longrightarrow> delta v < 1"
    and d: "delta v = sqrt (sum_list (map (\<lambda>k. k ^ 2) (take 3 (x_hat v))))"
    by blast+
  from m show "itr v < 10" by auto
  from d show "delta v = sqrt (sum_list (map (\<lambda>k. k ^ 2) (take 3 (x_hat v))))" .
  assume "itr v < 9"
  with e show "delta v < 1" by (simp add: range10)
next
  assume "iteration E sats P now vmf i xs S = Inr w \<and> delta w < 1"
  then show "loop E sats P now vmf i rest xs S = Inr w" by (auto intro: loop_break)
next
  assume "iteration E sats P now vmf i xs S = Inr w \<and> \<not> delta w < 1"
  then show "loop E sats P now vmf i (j # js) xs S
          = loop E sats P now vmf j js (xyzt w) (map (\<lambda>s. eph2pos (snd s) (now + x_hat w ! 3)) sats)"
    by (auto intro: loop_continue)
next
  assume a: "rover_loop E sats Pr now 0 [1..<10] xs S = Inr v"
  from rover_loop_exit[OF a]
  have m: "itr v \<in> set (0 # [1..<10])" and e: "itr v \<noteq> last (0 # [1..<10]) \<longrightarrow> delta v < 10"
    and d: "delta v = sqrt (sum_list (map (\<lambda>k. k ^ 2) (take 3 (x_hat v))))"
    by blast+
  from m show "itr v < 10" by auto
  from d show "delta v = sqrt (sum_list (map (\<lambda>k. k ^ 2) (take 3 (x_hat v))))" .
  assume "itr v < 9"
  with e show "delta v < 10" by (simp add: range10)
next
  assume "rover_iteration E sats Pr now i xs S = Inr w \<and> delta w < 10"
  then show "rover_loop E sats Pr now i rest xs S = Inr w" by (auto intro: rover_loop_break)
next
  assume "rover_iteration E sats Pr now i xs S = Inr w \<and> \<not> delta w < 10"
  then show "rover_loop E sats Pr now i (j # js) xs S
          = rover_loop E sats Pr now j js (xyzt w) (map (\<lambda>s. eph2pos (snd s) (now + x_hat w ! 3)) sats)"
    by (auto intro: rover_loop_continue)
qed

text \<open>
  The static satellites end the loop in its first iteration with \<open>delta = 0\<close>; the moving
  ones keep \<open>delta = 2\<close> and the loop runs all ten iterations.
\<close>

theorem iteration_budget_witness:
  "loop demo_E demo_sats (map Some demo_P) 0 [] 0 [1..<10] [0, 0, 0, 0] demo_XYZs
     = Inr \<lparr>xyzt = [0, 0, 0, 0], XYZs = demo_XYZs, rho = demo_P, l = [0, 0, 0, 0], A = demo_A,
            x_hat = [0, 0, 0, 0], delta = 0, itr = 0\<rparr>
   \<and> (0 :: nat) < 10 \<and> (0 :: real) < 1
   \<and> loop demo_E moving_sats (map Some demo_P) 0 [] 0 [1..<10] [0, 0, 0, 0] demo_XYZs
     = Inr \<lparr>xyzt = [0, 0, 0, 0], XYZs = demo_XYZs, rho = demo_P,
            l = [2 - c * c, - (c * c), - (c * c), - (c * c) - 2], A = demo_A,
            x_hat = [- 2, 0, 0, - 1], delta = 2, itr = 9\<rparr>
   \<and> (9 :: nat) < 10 \<and> \<not> (2 :: real) < 1
   \<and> rover_loop demo_E demo_sats demo_P 0 0 [1..<10] [0, 0, 0, 0] demo_XYZs
     = Inr \<lparr>xyzt = [0, 0, 0, 0], XYZs = demo_XYZs, rho = demo_P, l = [0, 0, 0, 0], A = demo_A,
            x_hat = [0, 0, 0, 0], delta = 0, itr = 0\<rparr>
   \<and> (0 :: real) < 10"
  using iteration_budget[of demo_E demo_sats "map Some demo_P" 0 "[]" "[0, 0, 0, 0]" demo_XYZs
      "\<lparr>xyzt = [0, 0, 0, 0], XYZs = demo_XYZs, rho = demo_P, l = [0, 0, 0, 0], A = demo_A,
        x_hat = [0, 0, 0, 0], delta = 0, itr = 0\<rparr>" _ _ _ _ _ demo_P]
    iteration_budget[of demo_E moving_sats "map Some demo_P" 0 "[]" "[0, 0, 0, 0]" demo_XYZs
      "\<lparr>xyzt = [0, 0, 0, 0], XYZs = demo_XYZs, rho = demo_P,
        l = [2 - c * c, - (c * c), - (c * c), - (c * c) - 2], A = demo_A,
        x_hat = [- 2, 0, 0, - 1], delta = 2, itr = 9\<rparr>"]
    demo_loop moving_loop demo_rover_loop
  by simp

subsection \<open>What least_squares returns after the loop\<close>




subsection \<open>A run that uses up the ten iterations\<close>










































subsection \<open>The exception of an empty list of records is not its own\<close>

lemma demo_iteration_five:
  "iteration demo_E demo_sats (map Some demo_P) 0 [] i [0, 0, 0, 0, 0] demo_XYZs = Inl ValueError"
  by (simp add: demo_sats_def static_nav_def demo_E_def iteration_defs)

lemma demo_sats_loop_four_long:
  "sats_loop demo_E (demo_obs demo_names) demo_navs [0, 0, 0, 0] demo_names = Inr demo_sats"
  by (simp add: demo_defs demo_names_def)

lemma demo_xyzt0_long:
  "(if length [0, 0, 0, 0 :: real] \<noteq> 0 then [0, 0, 0, 0] @ [0]
    else [1 / 10 ^ 10, 1 / 10 ^ 10, 1 / 10 ^ 10, 0]) = [0, 0, 0, 0, 0 :: real]"
  by simp

lemma demo_least_squares_long:
  "least_squares demo_E (demo_obs demo_names) demo_navs [0, 0, 0, 0] [] = Inl ValueError"
  unfolding least_squares_def Let_def demo_obs_fields demo_sats_loop_four_long sum.case
    if_P[OF demo_four(1)] demo_P_C1 demo_XYZs_start demo_xyzt0_long
    loop_error[OF demo_iteration_five]
  by simp

text \<open>
  C9, as the claim has it, fails: the code has no error that names the condition. With
  every satellite having its record and an \<open>init_pos\<close> of four entries, \<open>least_squares\<close> ends
  in the same \<open>ValueError\<close> (from \<open>xyzt += x_hat\<close>) as with the empty list of records of
  \<open>G02\<close>.
\<close>

theorem value_error_is_no_tag:
  "demo_navs ''G01'' = Some [static_nav (20000000, 0, 0)]
   \<and> demo_navs ''G02'' = Some [static_nav (0, 20000000, 0)]
   \<and> demo_navs ''G03'' = Some [static_nav (0, 0, 20000000)]
   \<and> demo_navs ''G04'' = Some [static_nav (- 20000000, 0, 0)]
   \<and> PRN_number (demo_obs demo_names) = [''G01'', ''G02'', ''G03'', ''G04'']
   \<and> least_squares demo_E (demo_obs demo_names) demo_navs [0, 0, 0, 0] [] = Inl ValueError
   \<and> least_squares demo_E (demo_obs demo_names) (demo_navs(''G02'' \<mapsto> [])) [] [] = Inl ValueError"
proof -
  have "least_squares demo_E (demo_obs demo_names) (demo_navs(''G02'' \<mapsto> [])) [] [] = Inl ValueError"
    by (simp add: least_squares_def demo_defs demo_names_def)
  then show ?thesis
    using demo_least_squares_long by (simp add: demo_navs_def demo_obs_fields demo_names_def)
qed

end
